theory Spec2Isabelle
  imports Main
begin

section \<open>Python values and errors\<close>

text \<open>
  The application is a Python script (\<^verbatim>\<open>app.py\<close>): a SQLite store with two tables, four
  wrappers around a generative-text client, a speech synthesiser, and one answer cycle that
  runs when recorded audio arrives. Everything the script gets from outside (the client, the
  JSON decoder, the synthesiser, the clock, the state of the database file) is an explicit
  argument of the model; every exception the script can raise is a value.

  Values decoded from the providers' JSON are dynamically typed. Numbers with a fractional
  part are outside the model.
\<close>

datatype pyval =
    PNone
  | PBool bool
  | PInt int
  | PStr string
  | PList "pyval list"
  | PDict "(string \<times> pyval) list"

datatype error =
    ProviderError string
  | JSONDecodeError
  | KeyError string
  | TypeError
  | OperationalError
  | IntegrityError
  | InterfaceError
  | OverflowError

type_synonym bytes = string

text \<open>A value held in a SQLite column (no \<^verbatim>\<open>REAL\<close>, no \<^verbatim>\<open>BLOB\<close>: the script binds neither).\<close>

datatype sqlval = SNull | SInt int | SText string

subsection \<open>Subscripting and \<^verbatim>\<open>str()\<close>\<close>

text \<open>
  \<^verbatim>\<open>v[key]\<close> with a string key: a dict looks the key up and raises \<^verbatim>\<open>KeyError\<close> when it is
  missing; every other value raises \<^verbatim>\<open>TypeError\<close>. A \<open>PDict\<close> lists each key once, as
  \<^verbatim>\<open>json.loads\<close> builds it.
\<close>

fun subscript :: "pyval \<Rightarrow> string \<Rightarrow> error + pyval" where
  "subscript (PDict kvs) key =
     (case map_of kvs key of None \<Rightarrow> Inl (KeyError key) | Some v \<Rightarrow> Inr v)"
| "subscript v key = Inl TypeError"

definition digit_char :: "nat \<Rightarrow> char" where
  "digit_char d = ''0123456789'' ! d"

fun str_nat :: "nat \<Rightarrow> string" where
  "str_nat n = (if n < 10 then [digit_char n] else str_nat (n div 10) @ [digit_char (n mod 10)])"

declare str_nat.simps [simp del]

definition str_int :: "int \<Rightarrow> string" where
  "str_int i = (if i < 0 then CHR ''-'' # str_nat (nat (- i)) else str_nat (nat i))"

text \<open>
  \<^verbatim>\<open>str(v)\<close>, as an f-string applies it. The text of a list or a dict is Python's \<^verbatim>\<open>repr\<close>
  of the container, taken as the argument \<open>repr_container\<close>.
\<close>

fun py_str :: "(pyval \<Rightarrow> string) \<Rightarrow> pyval \<Rightarrow> string" where
  "py_str repr_container PNone = ''None''"
| "py_str repr_container (PBool b) = (if b then ''True'' else ''False'')"
| "py_str repr_container (PInt i) = str_int i"
| "py_str repr_container (PStr s) = s"
| "py_str repr_container v = repr_container v"

definition str_opt :: "string option \<Rightarrow> string" where
  "str_opt t = (case t of None \<Rightarrow> ''None'' | Some s \<Rightarrow> s)"

section \<open>What the script takes from outside\<close>

text \<open>
  \<open>json_loads\<close> is \<^verbatim>\<open>json.loads\<close> on a string; \<open>gtts\<close> is the speech synthesis
  (\<^verbatim>\<open>gTTS(text, lang='en').write_to_fp\<close>), an exception or the bytes of the buffer;
  \<open>repr_container\<close> is Python's text for a list or a dict; \<open>integer_affinity_text\<close> is what
  SQLite keeps in an \<^verbatim>\<open>INTEGER\<close> column when it is handed a text: the number the text
  denotes when it is a well-formed numeric literal, otherwise the text.
\<close>

record runtime =
  json_loads :: "string \<Rightarrow> error + pyval"
  gtts :: "string \<Rightarrow> error + bytes"
  repr_container :: "pyval \<Rightarrow> string"
  integer_affinity_text :: "string \<Rightarrow> sqlval"

section \<open>The SQLite store\<close>

text \<open>
  \<^verbatim>\<open>init_db\<close> creates
  \<^verbatim>\<open>users(id INTEGER PRIMARY KEY AUTOINCREMENT, name TEXT UNIQUE, created_at TEXT)\<close> and
  \<^verbatim>\<open>logs(id INTEGER PRIMARY KEY AUTOINCREMENT, user_id INTEGER, topic TEXT, difficulty TEXT,
  score INTEGER, timestamp TEXT)\<close>. The \<open>logs\<close> table declares no foreign key.
  Rows are kept in insertion order, which is the order of their row ids and the order in
  which SQLite scans a table.
\<close>

record user_row =
  u_id :: int
  u_name :: string
  u_created_at :: string

record log_row =
  l_id :: int
  l_user_id :: int
  l_topic :: sqlval
  l_difficulty :: sqlval
  l_score :: sqlval
  l_timestamp :: string

text \<open>
  \<open>reachable\<close> says whether \<^verbatim>\<open>sqlite3.connect\<close> and the statements that follow succeed at
  this moment; \<open>users_seq\<close> and \<open>logs_seq\<close> are the \<^verbatim>\<open>sqlite_sequence\<close> counters behind
  \<^verbatim>\<open>AUTOINCREMENT\<close>.
\<close>

record store =
  reachable :: bool
  users :: "user_row list"
  users_seq :: int
  logs :: "log_row list"
  logs_seq :: int


text \<open>
  The row id \<^verbatim>\<open>AUTOINCREMENT\<close> gives a new row: one more than the largest id the table
  holds or has ever held.
\<close>

definition next_rowid :: "int \<Rightarrow> int list \<Rightarrow> int" where
  "next_rowid seq ids = fold max ids seq + 1"

definition connect :: "store \<Rightarrow> error + store" where
  "connect w = (if reachable w then Inr w else Inl OperationalError)"

text \<open>
  \<^verbatim>\<open>INSERT INTO users (name, created_at) VALUES (?, ?)\<close>: the \<^verbatim>\<open>UNIQUE\<close> constraint on
  \<open>name\<close> rejects a second row with the same name; the new row id is \<^verbatim>\<open>lastrowid\<close>.
\<close>

definition insert_user :: "string \<Rightarrow> string \<Rightarrow> store \<Rightarrow> error + (int \<times> store)" where
  "insert_user username created w =
     (if username \<in> set (map u_name (users w)) then Inl IntegrityError
      else let rowid = next_rowid (users_seq w) (map u_id (users w)) in
        Inr (rowid,
             w\<lparr>users := users w @ [\<lparr>u_id = rowid, u_name = username, u_created_at = created\<rparr>],
               users_seq := rowid\<rparr>))"

text \<open>
  \<^verbatim>\<open>get_or_create_user(username)\<close>: \<^verbatim>\<open>SELECT id FROM users WHERE name = ?\<close>, then
  \<^verbatim>\<open>fetchone()\<close>; the found row's id, or an insert stamped with the current time \<open>now\<close>.
\<close>

definition get_or_create_user :: "string \<Rightarrow> string \<Rightarrow> store \<Rightarrow> error + (int \<times> store)" where
  "get_or_create_user now username w =
     (case connect w of
        Inl e \<Rightarrow> Inl e
      | Inr conn \<Rightarrow>
          (case find (\<lambda>r. u_name r = username) (users conn) of
             Some user \<Rightarrow> Inr (u_id user, conn)
           | None \<Rightarrow> insert_user username now conn))"

text \<open>
  How \<^verbatim>\<open>sqlite3\<close> binds a Python value to a \<^verbatim>\<open>?\<close>: \<^verbatim>\<open>None\<close> is \<^verbatim>\<open>NULL\<close>, a bool is the
  integer 0 or 1, an int must fit 64 signed bits (\<^verbatim>\<open>OverflowError\<close> otherwise), a str is a
  text, a list or a dict is not supported.
\<close>

definition int64 :: "int \<Rightarrow> bool" where
  "int64 i \<longleftrightarrow> - (2 ^ 63) \<le> i \<and> i < 2 ^ 63"

fun bind_param :: "pyval \<Rightarrow> error + sqlval" where
  "bind_param PNone = Inr SNull"
| "bind_param (PBool b) = Inr (SInt (if b then 1 else 0))"
| "bind_param (PInt i) = (if int64 i then Inr (SInt i) else Inl OverflowError)"
| "bind_param (PStr s) = Inr (SText s)"
| "bind_param (PList xs) = Inl InterfaceError"
| "bind_param (PDict kvs) = Inl InterfaceError"

text \<open>Column affinity: a \<^verbatim>\<open>TEXT\<close> column keeps an integer as its decimal text.\<close>

fun text_affinity :: "sqlval \<Rightarrow> sqlval" where
  "text_affinity (SInt i) = SText (str_int i)"
| "text_affinity v = v"

fun integer_affinity :: "runtime \<Rightarrow> sqlval \<Rightarrow> sqlval" where
  "integer_affinity rt (SText s) = integer_affinity_text rt s"
| "integer_affinity rt v = v"

text \<open>
  \<^verbatim>\<open>INSERT INTO logs (user_id, topic, difficulty, score, timestamp) VALUES (?, ?, ?, ?, ?)\<close>.
  Nothing relates \<open>user_id\<close> to the \<open>users\<close> table.
\<close>

definition insert_log :: "runtime \<Rightarrow> int \<Rightarrow> sqlval \<Rightarrow> sqlval \<Rightarrow> sqlval \<Rightarrow> string \<Rightarrow> store \<Rightarrow> store" where
  "insert_log rt user_id topic difficulty score stamp w =
     (let rowid = next_rowid (logs_seq w) (map l_id (logs w)) in
        w\<lparr>logs := logs w @ [\<lparr>l_id = rowid, l_user_id = user_id, l_topic = text_affinity topic,
                                 l_difficulty = text_affinity difficulty,
                                 l_score = integer_affinity rt score, l_timestamp = stamp\<rparr>],
          logs_seq := rowid\<rparr>)"

text \<open>
  \<^verbatim>\<open>save_progress(user_id, topic, difficulty, score)\<close>: connect, insert, commit. The
  parameters are bound in the order of the statement; \<open>user_id\<close> is an integer. An exception
  leaves the store as it was.
\<close>

definition save_progress :: "runtime \<Rightarrow> string \<Rightarrow> int \<Rightarrow> pyval \<Rightarrow> pyval \<Rightarrow> pyval \<Rightarrow> store \<Rightarrow> error + store" where
  "save_progress rt now user_id topic difficulty score w =
     (case connect w of
        Inl e \<Rightarrow> Inl e
      | Inr conn \<Rightarrow>
          if \<not> int64 user_id then Inl OverflowError
          else
          (case bind_param topic of
             Inl e \<Rightarrow> Inl e
           | Inr t \<Rightarrow>
               (case bind_param difficulty of
                  Inl e \<Rightarrow> Inl e
                | Inr d \<Rightarrow>
                    (case bind_param score of
                       Inl e \<Rightarrow> Inl e
                     | Inr sc \<Rightarrow> Inr (insert_log rt user_id t d sc now conn)))))"


section \<open>The providers\<close>

text \<open>
  \<^verbatim>\<open>client.models.generate_content(model, contents, config)\<close> and the \<^verbatim>\<open>.text\<close> of its
  response, which may be \<^verbatim>\<open>None\<close>. The third argument is the \<^verbatim>\<open>response_mime_type\<close> of the
  configuration, when one is passed.
\<close>

datatype part = Text string | FromBytes bytes string

record client =
  generate_content :: "string \<Rightarrow> part list \<Rightarrow> string option \<Rightarrow> error + string option"

definition MODEL_ID :: string where
  "MODEL_ID = ''gemini-2.0-flash''"

definition text_to_speech :: "runtime \<Rightarrow> string \<Rightarrow> bytes option" where
  "text_to_speech rt txt = (case gtts rt txt of Inl e \<Rightarrow> None | Inr buf \<Rightarrow> Some buf)"

definition transcribe_audio :: "client \<Rightarrow> bytes \<Rightarrow> error + string option" where
  "transcribe_audio c audio_bytes =
     generate_content c MODEL_ID
       [FromBytes audio_bytes ''audio/wav'',
        Text ''Transcribe this audio exactly. Output only the text.''] None"

definition agent_tutor :: "runtime \<Rightarrow> client \<Rightarrow> pyval \<Rightarrow> pyval \<Rightarrow> error + string option" where
  "agent_tutor rt c topic level =
     generate_content c MODEL_ID
       [Text (''Teach '' @ CHR 0x27 # py_str (repr_container rt) topic @ CHR 0x27 #
              '' (Level: '' @ py_str (repr_container rt) level @
              ''). Max 2 sentences. End with a question.'')] None"

text \<open>\<^verbatim>\<open>json.loads(res.text)\<close>: \<^verbatim>\<open>None\<close> is not a string.\<close>

definition loads :: "runtime \<Rightarrow> string option \<Rightarrow> error + pyval" where
  "loads rt res_text = (case res_text of None \<Rightarrow> Inl TypeError | Some s \<Rightarrow> json_loads rt s)"

definition agent_evaluator :: "runtime \<Rightarrow> client \<Rightarrow> string \<Rightarrow> pyval \<Rightarrow> error + pyval" where
  "agent_evaluator rt c user_answer topic =
     (case generate_content c MODEL_ID
             [Text (''Topic: '' @ py_str (repr_container rt) topic @ '' | Answer: '' @ user_answer @
                    ''. Output JSON: { 'score': 0-100, 'feedback': 'short text' }'')]
             (Some ''application/json'') of
        Inl e \<Rightarrow> Inl e
      | Inr res_text \<Rightarrow> loads rt res_text)"

definition agent_curriculum :: "runtime \<Rightarrow> client \<Rightarrow> pyval \<Rightarrow> pyval \<Rightarrow> error + pyval" where
  "agent_curriculum rt c last_score topic =
     (case generate_content c MODEL_ID
             [Text (''Score: '' @ py_str (repr_container rt) last_score @ '' on '' @
                    CHR 0x27 # py_str (repr_container rt) topic @ CHR 0x27 #
                    ''. Suggest next topic/difficulty. JSON: { 'next_topic': '...', 'difficulty': '...' }'')]
             (Some ''application/json'') of
        Inl e \<Rightarrow> Inl e
      | Inr res_text \<Rightarrow> loads rt res_text)"

section \<open>The session and the answer cycle\<close>

record turn =
  role :: string
  content :: string

record session =
  history :: "turn list"
  current_topic :: pyval
  difficulty :: pyval
  mastery_score :: pyval
  last_audio :: "bytes option"

definition init_session :: session where
  "init_session = \<lparr>history = [], current_topic = PStr ''Python Basics'',
                    difficulty = PStr ''Beginner'', mastery_score = PInt 0, last_audio = None\<rparr>"

text \<open>
  How a run of the cycle ends: the guard \<^verbatim>\<open>if audio and client\<close> or \<^verbatim>\<open>if user_text\<close> was
  false, the block ran to \<^verbatim>\<open>st.rerun()\<close>, or an exception left it.
\<close>

datatype outcome = Skipped | Completed | Raised error

text \<open>\<^verbatim>\<open>if user_id: save_progress(...)\<close>, with \<open>user_id\<close> an integer or \<^verbatim>\<open>None\<close>.\<close>

definition save_if_logged_in :: "runtime \<Rightarrow> string \<Rightarrow> int option \<Rightarrow> pyval \<Rightarrow> pyval \<Rightarrow> pyval \<Rightarrow> store \<Rightarrow> error + store" where
  "save_if_logged_in rt now user_id topic level score w =
     (case user_id of
        None \<Rightarrow> Inr w
      | Some u \<Rightarrow> if u \<noteq> 0 then save_progress rt now u topic level score w else Inr w)"

text \<open>
  The block under \<^verbatim>\<open>if audio and client:\<close>. The session state lives in
  \<^verbatim>\<open>st.session_state\<close>, so what was assigned before an exception stays assigned: the
  result carries the session and the store as they are when the block is left.
\<close>

definition answer_cycle :: "runtime \<Rightarrow> string \<Rightarrow> client option \<Rightarrow> int option \<Rightarrow> bytes option \<Rightarrow> session \<Rightarrow> store \<Rightarrow> outcome \<times> session \<times> store" where
  "answer_cycle rt now cl user_id audio s w =
     (case audio of
        None \<Rightarrow> (Skipped, s, w)
      | Some audio_bytes \<Rightarrow>
     (case cl of
        None \<Rightarrow> (Skipped, s, w)
      | Some c \<Rightarrow>
     (case transcribe_audio c audio_bytes of
        Inl e \<Rightarrow> (Raised e, s, w)
      | Inr None \<Rightarrow> (Skipped, s, w)
      | Inr (Some user_text) \<Rightarrow>
     if user_text = [] then (Skipped, s, w)
     else
       let s1 = s\<lparr>history := history s @ [\<lparr>role = ''user'', content = user_text\<rparr>]\<rparr> in
     (case agent_evaluator rt c user_text (current_topic s1) of
        Inl e \<Rightarrow> (Raised e, s1, w)
      | Inr eval_result \<Rightarrow>
     (case subscript eval_result ''score'' of
        Inl e \<Rightarrow> (Raised e, s1, w)
      | Inr score \<Rightarrow>
       let s2 = s1\<lparr>mastery_score := score\<rparr> in
     (case save_if_logged_in rt now user_id (current_topic s2) (difficulty s2) score w of
        Inl e \<Rightarrow> (Raised e, s2, w)
      | Inr w1 \<Rightarrow>
     (case agent_curriculum rt c score (current_topic s2) of
        Inl e \<Rightarrow> (Raised e, s2, w1)
      | Inr plan \<Rightarrow>
     (case subscript plan ''next_topic'' of
        Inl e \<Rightarrow> (Raised e, s2, w1)
      | Inr next_topic \<Rightarrow>
       let s3 = s2\<lparr>current_topic := next_topic\<rparr> in
     (case subscript plan ''difficulty'' of
        Inl e \<Rightarrow> (Raised e, s3, w1)
      | Inr next_level \<Rightarrow>
       let s4 = s3\<lparr>difficulty := next_level\<rparr> in
     (case agent_tutor rt c (current_topic s4) (difficulty s4) of
        Inl e \<Rightarrow> (Raised e, s4, w1)
      | Inr new_lesson \<Rightarrow>
     (case subscript eval_result ''feedback'' of
        Inl e \<Rightarrow> (Raised e, s4, w1)
      | Inr feedback \<Rightarrow>
       let full_resp = ''('' @ py_str (repr_container rt) score @ ''/100 - '' @
                       py_str (repr_container rt) feedback @ '') '' @ str_opt new_lesson;
           s5 = s4\<lparr>history := history s4 @ [\<lparr>role = ''assistant'', content = full_resp\<rparr>]\<rparr>;
           s6 = s5\<lparr>last_audio := text_to_speech rt full_resp\<rparr>
       in (Completed, s6, w1))))))))))))"

section \<open>The end-to-end scenario\<close>

text \<open>
  Concrete collaborators on which the model is run. The learner says "A variable stores a
  value", the evaluation is \<^verbatim>\<open>{"score": 80, "feedback": "Good"}\<close>, the curriculum answers
  \<^verbatim>\<open>{"next_topic": "Loops", "difficulty": "Intermediate"}\<close>. The client tells its four
  requests apart by the audio part or the first six characters of the prompt; the decoder
  knows the JSON texts that the clients below produce.
\<close>

definition request_kind :: "part list \<Rightarrow> string" where
  "request_kind parts =
     (case parts of
        [FromBytes b t, p] \<Rightarrow> ''audio''
      | [Text p] \<Rightarrow> take 6 p
      | _ \<Rightarrow> [])"

definition plan_text :: string where
  "plan_text = ''{\"next_topic\": \"Loops\", \"difficulty\": \"Intermediate\"}''"

definition scenario_json :: "(string \<times> pyval) list" where
  "scenario_json =
     [(''{\"score\": 80, \"feedback\": \"Good\"}'',
         PDict [(''score'', PInt 80), (''feedback'', PStr ''Good'')]),
      (''{\"score\": 150, \"feedback\": \"Good\"}'',
         PDict [(''score'', PInt 150), (''feedback'', PStr ''Good'')]),
      (''{\"score\": -5, \"feedback\": \"Good\"}'',
         PDict [(''score'', PInt (- 5)), (''feedback'', PStr ''Good'')]),
      (plan_text,
         PDict [(''next_topic'', PStr ''Loops''), (''difficulty'', PStr ''Intermediate'')])]"

definition scenario_runtime :: runtime where
  "scenario_runtime =
     \<lparr>json_loads = (\<lambda>s. case map_of scenario_json s of
                               None \<Rightarrow> Inl JSONDecodeError
                             | Some v \<Rightarrow> Inr v),
      gtts = (\<lambda>t. Inr ''mp3''),
      repr_container = (\<lambda>v. ''[]''),
      integer_affinity_text = SText\<rparr>"

text \<open>A client whose evaluation request is answered with the given text.\<close>

definition client_answering :: "string \<Rightarrow> client" where
  "client_answering eval_text =
     \<lparr>generate_content = (\<lambda>model parts mime.
        if request_kind parts = ''audio'' then Inr (Some ''A variable stores a value'')
        else if request_kind parts = ''Topic:'' then Inr (Some eval_text)
        else if request_kind parts = ''Score:'' then Inr (Some plan_text)
        else if request_kind parts = ''Teach '' then Inr (Some ''What does a for loop repeat?'')
        else Inl (ProviderError ''unexpected request''))\<rparr>"

definition scenario_client :: client where
  "scenario_client = client_answering ''{\"score\": 80, \"feedback\": \"Good\"}''"

text \<open>The scenario's client with one kind of request raising, and with a transcription
  that yields no text.\<close>

definition failing_client :: "string \<Rightarrow> client" where
  "failing_client kind =
     \<lparr>generate_content = (\<lambda>model parts mime.
        if request_kind parts = kind then Inl (ProviderError kind)
        else generate_content scenario_client model parts mime)\<rparr>"

definition silent_client :: "string option \<Rightarrow> client" where
  "silent_client heard =
     \<lparr>generate_content = (\<lambda>model parts mime.
        if request_kind parts = ''audio'' then Inr heard
        else generate_content scenario_client model parts mime)\<rparr>"

text \<open>The store after \<open>Student\<close> has logged in once, and after \<open>Ada\<close> has logged in too.\<close>

definition student_store :: store where
  "student_store =
     \<lparr>reachable = True,
      users = [\<lparr>u_id = 1, u_name = ''Student'', u_created_at = ''2024-05-01 09:00:00''\<rparr>],
      users_seq = 1, logs = [], logs_seq = 0\<rparr>"

definition two_user_store :: store where
  "two_user_store =
     \<lparr>reachable = True,
      users = [\<lparr>u_id = 1, u_name = ''Student'', u_created_at = ''2024-05-01 09:00:00''\<rparr>,
               \<lparr>u_id = 2, u_name = ''Ada'', u_created_at = ''2024-05-01 09:30:00''\<rparr>],
      users_seq = 2, logs = [], logs_seq = 0\<rparr>"

text \<open>The store after \<open>Student\<close>, user 1, has been graded once on the first lesson.\<close>

definition graded_store :: "int \<Rightarrow> store" where
  "graded_store sc =
     student_store
       \<lparr>logs := [\<lparr>l_id = 1, l_user_id = 1, l_topic = SText ''Python Basics'',
                  l_difficulty = SText ''Beginner'', l_score = SInt sc,
                  l_timestamp = ''2024-05-01 09:05:00''\<rparr>],
        logs_seq := 1\<rparr>"

section \<open>Properties of the store\<close>

lemma find_name_Some:
  "username \<in> set (map u_name rows) \<Longrightarrow>
     \<exists>r \<in> set rows. u_name r = username \<and> find (\<lambda>r. u_name r = username) rows = Some r"
  by (induction rows) auto








text \<open>
  C10. When the name is already in the \<open>users\<close> table, \<open>get_or_create_user\<close> writes
  nothing: either the store cannot be reached and the call raises, or it returns the id of a
  row with that name together with the store exactly as it was, \<open>users\<close> and \<open>logs\<close>
  included.
\<close>

theorem get_or_create_user_existing_no_write:
  assumes "username \<in> set (map u_name (users w))"
  shows "case get_or_create_user now username w of
           Inl e \<Rightarrow> \<not> reachable w
         | Inr (uid, w') \<Rightarrow> w' = w \<and> (\<exists>r \<in> set (users w). u_name r = username \<and> u_id r = uid)"
  using find_name_Some [OF assms]
  by (auto simp: get_or_create_user_def connect_def)

theorem get_or_create_user_existing_no_write_witness:
  "''Ada'' \<in> set (map u_name (users two_user_store))
   \<and> get_or_create_user ''2024-05-03 10:00:00'' ''Ada'' two_user_store = Inr (2, two_user_store)"
proof -
  have ex: "''Ada'' \<in> set (map u_name (users two_user_store))"
    by (simp add: two_user_store_def)
  have run: "get_or_create_user ''2024-05-03 10:00:00'' ''Ada'' two_user_store = Inr (2, two_user_store)"
    by (simp add: get_or_create_user_def connect_def two_user_store_def)
  from get_or_create_user_existing_no_write [OF ex, of "''2024-05-03 10:00:00''"] ex run
  show ?thesis by simp
qed

subsection \<open>Writing and reading progress\<close>

text \<open>What \<open>save_progress\<close> does with a text topic, a text level and an integer score.\<close>

lemma save_progress_typed:
  "save_progress rt now uid (PStr t) (PStr d) (PInt sc) w =
     (if \<not> reachable w then Inl OperationalError
      else if int64 uid \<and> int64 sc
      then Inr (w\<lparr>logs := logs w @
                    [\<lparr>l_id = next_rowid (logs_seq w) (map l_id (logs w)), l_user_id = uid,
                      l_topic = SText t, l_difficulty = SText d, l_score = SInt sc,
                      l_timestamp = now\<rparr>],
                  logs_seq := next_rowid (logs_seq w) (map l_id (logs w))\<rparr>)
      else Inl OverflowError)"
  by (simp add: save_progress_def connect_def insert_log_def Let_def)

lemma save_progress_unreachable:
  "\<not> reachable w \<Longrightarrow> save_progress rt now uid topic level score w = Inl OperationalError"
  by (simp add: save_progress_def connect_def)







section \<open>Properties of the answer cycle\<close>

lemmas scenario_defs =
  scenario_runtime_def scenario_client_def client_answering_def failing_client_def
  silent_client_def request_kind_def plan_text_def scenario_json_def MODEL_ID_def
  transcribe_audio_def agent_tutor_def agent_evaluator_def agent_curriculum_def loads_def

text \<open>What a cycle that ran to its end has done.\<close>

lemma answer_cycle_completedE:
  assumes "answer_cycle rt now cl user_id audio s w = (Completed, s', w')"
  obtains c audio_bytes user_text eval_result score plan next_topic next_level lesson feedback
  where "cl = Some c" "audio = Some audio_bytes"
    "transcribe_audio c audio_bytes = Inr (Some user_text)" "user_text \<noteq> []"
    "agent_evaluator rt c user_text (current_topic s) = Inr eval_result"
    "subscript eval_result ''score'' = Inr score"
    "save_if_logged_in rt now user_id (current_topic s) (difficulty s) score w = Inr w'"
    "agent_curriculum rt c score (current_topic s) = Inr plan"
    "subscript plan ''next_topic'' = Inr next_topic"
    "subscript plan ''difficulty'' = Inr next_level"
    "agent_tutor rt c next_topic next_level = Inr lesson"
    "subscript eval_result ''feedback'' = Inr feedback"
    "s' = s\<lparr>history := history s @
                [\<lparr>role = ''user'', content = user_text\<rparr>,
                 \<lparr>role = ''assistant'',
                  content = ''('' @ py_str (repr_container rt) score @ ''/100 - '' @
                            py_str (repr_container rt) feedback @ '') '' @ str_opt lesson\<rparr>],
              current_topic := next_topic, difficulty := next_level, mastery_score := score,
              last_audio := text_to_speech rt
                 (''('' @ py_str (repr_container rt) score @ ''/100 - '' @
                  py_str (repr_container rt) feedback @ '') '' @ str_opt lesson)\<rparr>"
  using assms
  by (auto simp: answer_cycle_def Let_def split: option.splits sum.splits if_splits)

text \<open>The scenario, call by call, and as a whole.\<close>

lemma scenario_heard:
  "transcribe_audio scenario_client ''wav'' = Inr (Some ''A variable stores a value'')"
  by (simp add: scenario_defs)

lemma scenario_graded:
  "agent_evaluator scenario_runtime scenario_client ''A variable stores a value''
     (PStr ''Python Basics'')
   = Inr (PDict [(''score'', PInt 80), (''feedback'', PStr ''Good'')])"
  by (simp add: scenario_defs)

lemma scenario_planned:
  "agent_curriculum scenario_runtime scenario_client (PInt 80) (PStr ''Python Basics'')
   = Inr (PDict [(''next_topic'', PStr ''Loops''), (''difficulty'', PStr ''Intermediate'')])"
  by (simp add: scenario_defs)

lemma scenario_taught:
  "agent_tutor scenario_runtime scenario_client (PStr ''Loops'') (PStr ''Intermediate'')
   = Inr (Some ''What does a for loop repeat?'')"
  by (simp add: scenario_defs)

lemma scenario_saved:
  "save_progress scenario_runtime ''2024-05-01 09:05:00'' 1
     (PStr ''Python Basics'') (PStr ''Beginner'') (PInt 80) student_store
   = Inr (graded_store 80)"
  by (simp add: save_progress_typed graded_store_def student_store_def int64_def next_rowid_def)

lemma scenario_run:
  "answer_cycle scenario_runtime ''2024-05-01 09:05:00'' (Some scenario_client) (Some 1)
     (Some ''wav'') init_session student_store
   = (Completed,
      \<lparr>history = [\<lparr>role = ''user'', content = ''A variable stores a value''\<rparr>,
                  \<lparr>role = ''assistant'',
                   content = ''(80/100 - Good) What does a for loop repeat?''\<rparr>],
       current_topic = PStr ''Loops'', difficulty = PStr ''Intermediate'',
       mastery_score = PInt 80, last_audio = Some ''mp3''\<rparr>,
      graded_store 80)"
  by (simp add: answer_cycle_def save_if_logged_in_def Let_def scenario_defs init_session_def
        save_progress_typed graded_store_def student_store_def text_to_speech_def str_opt_def
        str_int_def str_nat.simps digit_char_def int64_def next_rowid_def)

text \<open>
  C7. When the transcription yields no text, \<^verbatim>\<open>None\<close> or the empty string, the cycle is
  skipped: the session (history, topic, level, last score, audio) and the store are what
  they were.
\<close>

theorem no_transcript_no_change:
  assumes "transcribe_audio c audio_bytes = Inr None
           \<or> transcribe_audio c audio_bytes = Inr (Some [])"
  shows "answer_cycle rt now (Some c) user_id (Some audio_bytes) s w = (Skipped, s, w)"
  using assms by (auto simp: answer_cycle_def)

theorem no_transcript_no_change_witness:
  "transcribe_audio (silent_client None) ''wav'' = Inr None
   \<and> answer_cycle scenario_runtime ''2024-05-01 09:05:00'' (Some (silent_client None)) (Some 1)
         (Some ''wav'') init_session student_store
       = (Skipped, init_session, student_store)
   \<and> transcribe_audio (silent_client (Some [])) ''wav'' = Inr (Some [])
   \<and> answer_cycle scenario_runtime ''2024-05-01 09:05:00'' (Some (silent_client (Some []))) (Some 1)
         (Some ''wav'') init_session student_store
       = (Skipped, init_session, student_store)"
proof -
  have absent: "transcribe_audio (silent_client None) ''wav'' = Inr None"
    by (simp add: scenario_defs)
  have empty: "transcribe_audio (silent_client (Some [])) ''wav'' = Inr (Some [])"
    by (simp add: scenario_defs)
  from absent empty
    no_transcript_no_change [of "silent_client None" "''wav''" scenario_runtime
      "''2024-05-01 09:05:00''" "Some 1" init_session student_store]
    no_transcript_no_change [of "silent_client (Some [])" "''wav''" scenario_runtime
      "''2024-05-01 09:05:00''" "Some 1" init_session student_store]
  show ?thesis by simp
qed

text \<open>
  C1, as the code has it. The score is used as the provider returns it: when the evaluation
  carries the integer \<open>i\<close>, a user is logged in and the write succeeds, the last score
  becomes \<open>i\<close> and the row written carries \<open>i\<close>, however the rest of the cycle ends.
  Nothing clamps it: the stored score lies between 0 and 100 exactly when the provider's does.
\<close>

theorem score_stored_as_returned:
  assumes heard: "transcribe_audio c audio_bytes = Inr (Some user_text)" "user_text \<noteq> []"
    and graded: "agent_evaluator rt c user_text (current_topic s) = Inr eval_result"
    and score: "subscript eval_result ''score'' = Inr (PInt i)"
    and logged_in: "u \<noteq> 0"
    and saved: "save_progress rt now u (current_topic s) (difficulty s) (PInt i) w = Inr w1"
    and run: "answer_cycle rt now (Some c) (Some u) (Some audio_bytes) s w = (out, s', w')"
  shows "mastery_score s' = PInt i \<and> w' = w1
         \<and> map l_score (logs w') = map l_score (logs w) @ [SInt i]"
proof -
  from saved have w1: "map l_score (logs w1) = map l_score (logs w) @ [SInt i]"
    by (auto simp: save_progress_def connect_def insert_log_def Let_def
             split: if_splits sum.splits)
  from run heard graded score logged_in saved
  have "mastery_score s' = PInt i \<and> w' = w1"
    by (auto simp: answer_cycle_def Let_def save_if_logged_in_def split: sum.splits)
  with w1 show ?thesis by simp
qed

theorem score_stored_as_returned_witness:
  "answer_cycle scenario_runtime ''2024-05-01 09:05:00''
      (Some (client_answering ''{\"score\": 150, \"feedback\": \"Good\"}'')) (Some 1)
      (Some ''wav'') init_session student_store
    = (Completed,
       \<lparr>history = [\<lparr>role = ''user'', content = ''A variable stores a value''\<rparr>,
                   \<lparr>role = ''assistant'',
                    content = ''(150/100 - Good) What does a for loop repeat?''\<rparr>],
        current_topic = PStr ''Loops'', difficulty = PStr ''Intermediate'',
        mastery_score = PInt 150, last_audio = Some ''mp3''\<rparr>,
       graded_store 150)
   \<and> map l_score (logs (graded_store 150)) = map l_score (logs student_store) @ [SInt 150]"
proof -
  let ?c = "client_answering ''{\"score\": 150, \"feedback\": \"Good\"}''"
  have heard: "transcribe_audio ?c ''wav'' = Inr (Some ''A variable stores a value'')"
    "''A variable stores a value'' \<noteq> []"
    by (simp_all add: scenario_defs)
  have graded: "agent_evaluator scenario_runtime ?c ''A variable stores a value''
      (current_topic init_session)
    = Inr (PDict [(''score'', PInt 150), (''feedback'', PStr ''Good'')])"
    by (simp add: scenario_defs init_session_def)
  have score: "subscript (PDict [(''score'', PInt 150), (''feedback'', PStr ''Good'')]) ''score''
    = Inr (PInt 150)"
    by simp
  have logged_in: "(1 :: int) \<noteq> 0"
    by simp
  have saved: "save_progress scenario_runtime ''2024-05-01 09:05:00'' 1
      (current_topic init_session) (difficulty init_session) (PInt 150) student_store
    = Inr (graded_store 150)"
    by (simp add: save_progress_typed graded_store_def student_store_def init_session_def
          int64_def next_rowid_def)
  have run: "answer_cycle scenario_runtime ''2024-05-01 09:05:00'' (Some ?c) (Some 1)
      (Some ''wav'') init_session student_store
    = (Completed,
       \<lparr>history = [\<lparr>role = ''user'', content = ''A variable stores a value''\<rparr>,
                   \<lparr>role = ''assistant'',
                    content = ''(150/100 - Good) What does a for loop repeat?''\<rparr>],
        current_topic = PStr ''Loops'', difficulty = PStr ''Intermediate'',
        mastery_score = PInt 150, last_audio = Some ''mp3''\<rparr>,
       graded_store 150)"
    by (simp add: answer_cycle_def save_if_logged_in_def Let_def scenario_defs init_session_def
        save_progress_typed graded_store_def student_store_def text_to_speech_def str_opt_def
        str_int_def str_nat.simps digit_char_def int64_def next_rowid_def)
  from score_stored_as_returned [OF heard graded score logged_in saved run] run
  show ?thesis by simp
qed

text \<open>
  C1 as stated fails: a provider score of 150 is stored as 150 and one of -5 as -5, in the
  session and in the \<open>logs\<close> row.
\<close>

theorem score_not_clamped_counterexample:
  "mastery_score (fst (snd (answer_cycle scenario_runtime ''2024-05-01 09:05:00''
      (Some (client_answering ''{\"score\": 150, \"feedback\": \"Good\"}'')) (Some 1)
      (Some ''wav'') init_session student_store))) = PInt 150
   \<and> map l_score (logs (snd (snd (answer_cycle scenario_runtime ''2024-05-01 09:05:00''
      (Some (client_answering ''{\"score\": 150, \"feedback\": \"Good\"}'')) (Some 1)
      (Some ''wav'') init_session student_store)))) = [SInt 150]
   \<and> mastery_score (fst (snd (answer_cycle scenario_runtime ''2024-05-01 09:05:00''
      (Some (client_answering ''{\"score\": -5, \"feedback\": \"Good\"}'')) (Some 1)
      (Some ''wav'') init_session student_store))) = PInt (- 5)
   \<and> map l_score (logs (snd (snd (answer_cycle scenario_runtime ''2024-05-01 09:05:00''
      (Some (client_answering ''{\"score\": -5, \"feedback\": \"Good\"}'')) (Some 1)
      (Some ''wav'') init_session student_store)))) = [SInt (- 5)]"
  by (simp add: answer_cycle_def save_if_logged_in_def Let_def scenario_defs init_session_def
        save_progress_typed student_store_def int64_def next_rowid_def)

text \<open>
  C2, as the code has it. When a user is logged in and \<open>save_progress\<close> raises, the
  exception leaves the cycle: the curriculum is not asked, topic and level keep their values
  and no tutor turn is appended. What was assigned before the write stays: the learner's
  turn and the last score.
\<close>

theorem save_failure_aborts_cycle:
  assumes "transcribe_audio c audio_bytes = Inr (Some user_text)" "user_text \<noteq> []"
    and "agent_evaluator rt c user_text (current_topic s) = Inr eval_result"
    and "subscript eval_result ''score'' = Inr score"
    and "u \<noteq> 0"
    and "save_progress rt now u (current_topic s) (difficulty s) score w = Inl e"
  shows "answer_cycle rt now (Some c) (Some u) (Some audio_bytes) s w =
           (Raised e,
            s\<lparr>history := history s @ [\<lparr>role = ''user'', content = user_text\<rparr>],
              mastery_score := score\<rparr>,
            w)"
  using assms by (simp add: answer_cycle_def Let_def save_if_logged_in_def)

theorem save_failure_aborts_cycle_witness:
  "save_progress scenario_runtime ''2024-05-01 09:05:00'' 1 (current_topic init_session)
      (difficulty init_session) (PInt 80) (student_store\<lparr>reachable := False\<rparr>)
    = Inl OperationalError
   \<and> answer_cycle scenario_runtime ''2024-05-01 09:05:00'' (Some scenario_client) (Some 1)
       (Some ''wav'') init_session (student_store\<lparr>reachable := False\<rparr>)
     = (Raised OperationalError,
        init_session\<lparr>history := history init_session @
                        [\<lparr>role = ''user'', content = ''A variable stores a value''\<rparr>],
                     mastery_score := PInt 80\<rparr>,
        student_store\<lparr>reachable := False\<rparr>)"
proof -
  have heard: "''A variable stores a value'' \<noteq> []"
    by simp
  have graded: "agent_evaluator scenario_runtime scenario_client ''A variable stores a value''
      (current_topic init_session)
    = Inr (PDict [(''score'', PInt 80), (''feedback'', PStr ''Good'')])"
    by (simp add: scenario_graded init_session_def)
  have score: "subscript (PDict [(''score'', PInt 80), (''feedback'', PStr ''Good'')]) ''score''
    = Inr (PInt 80)"
    by simp
  have logged_in: "(1 :: int) \<noteq> 0"
    by simp
  have failed: "save_progress scenario_runtime ''2024-05-01 09:05:00'' 1
      (current_topic init_session) (difficulty init_session) (PInt 80)
      (student_store\<lparr>reachable := False\<rparr>) = Inl OperationalError"
    by (simp add: save_progress_unreachable)
  from save_failure_aborts_cycle [OF scenario_heard heard graded score logged_in failed] failed
  show ?thesis by simp
qed

text \<open>
  C2 as stated fails: with the store out of reach the scenario ends in the exception, the
  topic is still the first one and the history holds the learner's turn only.
\<close>

theorem save_failure_counterexample:
  "answer_cycle scenario_runtime ''2024-05-01 09:05:00'' (Some scenario_client) (Some 1)
       (Some ''wav'') init_session (student_store\<lparr>reachable := False\<rparr>)
     = (Raised OperationalError,
        \<lparr>history = [\<lparr>role = ''user'', content = ''A variable stores a value''\<rparr>],
         current_topic = PStr ''Python Basics'', difficulty = PStr ''Beginner'',
         mastery_score = PInt 80, last_audio = None\<rparr>,
        student_store\<lparr>reachable := False\<rparr>)"
  by (simp add: answer_cycle_def save_if_logged_in_def Let_def scenario_defs init_session_def
        save_progress_unreachable)

text \<open>
  C3, as the code has it. Nothing in the cycle catches an exception: when the transcription,
  the evaluation, the write of the progress, the curriculum or the lesson call raises, or a
  field is missing from a provider's answer, the cycle is left with that exception. When all
  of them succeed the cycle runs to its end, whatever the speech synthesis does.
\<close>

theorem failures_leave_the_cycle:
  "let out = fst (answer_cycle rt now (Some c) user_id (Some audio_bytes) s w) in
   (transcribe_audio c audio_bytes = Inl e \<longrightarrow> out = Raised e)
   \<and> (transcribe_audio c audio_bytes = Inr (Some user_text) \<and> user_text \<noteq> [] \<longrightarrow>
       (agent_evaluator rt c user_text (current_topic s) = Inl e \<longrightarrow> out = Raised e)
     \<and> (agent_evaluator rt c user_text (current_topic s) = Inr eval_result \<longrightarrow>
         (subscript eval_result ''score'' = Inl e \<longrightarrow> out = Raised e)
       \<and> (subscript eval_result ''score'' = Inr score \<longrightarrow>
           (save_if_logged_in rt now user_id (current_topic s) (difficulty s) score w = Inl e \<longrightarrow>
              out = Raised e)
         \<and> (save_if_logged_in rt now user_id (current_topic s) (difficulty s) score w = Inr w1 \<longrightarrow>
             (agent_curriculum rt c score (current_topic s) = Inl e \<longrightarrow> out = Raised e)
           \<and> (agent_curriculum rt c score (current_topic s) = Inr plan \<longrightarrow>
               (subscript plan ''next_topic'' = Inl e \<longrightarrow> out = Raised e)
             \<and> (subscript plan ''next_topic'' = Inr next_topic \<longrightarrow>
                 (subscript plan ''difficulty'' = Inl e \<longrightarrow> out = Raised e)
               \<and> (subscript plan ''difficulty'' = Inr next_level \<longrightarrow>
                   (agent_tutor rt c next_topic next_level = Inl e \<longrightarrow> out = Raised e)
                 \<and> (agent_tutor rt c next_topic next_level = Inr lesson \<longrightarrow>
                     (subscript eval_result ''feedback'' = Inl e \<longrightarrow> out = Raised e)
                   \<and> (subscript eval_result ''feedback'' = Inr feedback \<longrightarrow>
                        out = Completed)))))))))"
  by (simp add: answer_cycle_def Let_def)

theorem failures_leave_the_cycle_witness:
  "transcribe_audio (failing_client ''audio'') ''wav'' = Inl (ProviderError ''audio'')
   \<and> fst (answer_cycle scenario_runtime ''2024-05-01 09:05:00'' (Some (failing_client ''audio''))
            (Some 1) (Some ''wav'') init_session student_store) = Raised (ProviderError ''audio'')
   \<and> agent_evaluator scenario_runtime (failing_client ''Topic:'') ''A variable stores a value''
        (current_topic init_session) = Inl (ProviderError ''Topic:'')
   \<and> fst (answer_cycle scenario_runtime ''2024-05-01 09:05:00'' (Some (failing_client ''Topic:''))
            (Some 1) (Some ''wav'') init_session student_store) = Raised (ProviderError ''Topic:'')
   \<and> save_if_logged_in scenario_runtime ''2024-05-01 09:05:00'' (Some 1)
        (current_topic init_session) (difficulty init_session) (PInt 80)
        (student_store\<lparr>reachable := False\<rparr>) = Inl OperationalError
   \<and> fst (answer_cycle scenario_runtime ''2024-05-01 09:05:00'' (Some scenario_client)
            (Some 1) (Some ''wav'') init_session (student_store\<lparr>reachable := False\<rparr>))
       = Raised OperationalError
   \<and> agent_curriculum scenario_runtime (failing_client ''Score:'') (PInt 80)
        (current_topic init_session) = Inl (ProviderError ''Score:'')
   \<and> fst (answer_cycle scenario_runtime ''2024-05-01 09:05:00'' (Some (failing_client ''Score:''))
            (Some 1) (Some ''wav'') init_session student_store) = Raised (ProviderError ''Score:'')
   \<and> agent_tutor scenario_runtime (failing_client ''Teach '') (PStr ''Loops'') (PStr ''Intermediate'')
         = Inl (ProviderError ''Teach '')
   \<and> fst (answer_cycle scenario_runtime ''2024-05-01 09:05:00'' (Some (failing_client ''Teach ''))
            (Some 1) (Some ''wav'') init_session student_store) = Raised (ProviderError ''Teach '')
   \<and> gtts (scenario_runtime\<lparr>gtts := (\<lambda>t. Inl (ProviderError ''gTTS''))\<rparr>)
        ''(80/100 - Good) What does a for loop repeat?'' = Inl (ProviderError ''gTTS'')
   \<and> fst (answer_cycle (scenario_runtime\<lparr>gtts := (\<lambda>t. Inl (ProviderError ''gTTS''))\<rparr>)
            ''2024-05-01 09:05:00'' (Some scenario_client)
            (Some 1) (Some ''wav'') init_session student_store) = Completed"
proof -
  let ?now = "''2024-05-01 09:05:00''"
  let ?text = "''A variable stores a value''"
  let ?ev = "PDict [(''score'', PInt 80), (''feedback'', PStr ''Good'')]"
  let ?plan = "PDict [(''next_topic'', PStr ''Loops''), (''difficulty'', PStr ''Intermediate'')]"
  let ?mute = "scenario_runtime\<lparr>gtts := (\<lambda>t. Inl (ProviderError ''gTTS''))\<rparr>"
  have saved: "save_if_logged_in scenario_runtime ?now (Some 1)
        (current_topic init_session) (difficulty init_session) (PInt 80) student_store
       = Inr (graded_store 80)"
    by (simp add: save_if_logged_in_def scenario_saved init_session_def)
  have a: "transcribe_audio (failing_client ''audio'') ''wav'' = Inl (ProviderError ''audio'')"
    by (simp add: scenario_defs)
  from a failures_leave_the_cycle [of scenario_runtime ?now
      "failing_client ''audio''" "Some 1" "''wav''" init_session student_store
      "ProviderError ''audio''"]
  have 1: "fst (answer_cycle scenario_runtime ?now (Some (failing_client ''audio''))
            (Some 1) (Some ''wav'') init_session student_store) = Raised (ProviderError ''audio'')"
    by (simp add: Let_def)
  have b: "transcribe_audio (failing_client ''Topic:'') ''wav'' = Inr (Some ?text)"
    "agent_evaluator scenario_runtime (failing_client ''Topic:'') ?text
        (current_topic init_session) = Inl (ProviderError ''Topic:'')"
    by (simp_all add: scenario_defs init_session_def)
  from b failures_leave_the_cycle [of scenario_runtime ?now
      "failing_client ''Topic:''" "Some 1" "''wav''" init_session student_store
      "ProviderError ''Topic:''" ?text]
  have 2: "fst (answer_cycle scenario_runtime ?now (Some (failing_client ''Topic:''))
            (Some 1) (Some ''wav'') init_session student_store) = Raised (ProviderError ''Topic:'')"
    by (simp add: Let_def)
  have p: "agent_evaluator scenario_runtime scenario_client ?text (current_topic init_session)
        = Inr ?ev"
    "save_if_logged_in scenario_runtime ?now (Some 1)
        (current_topic init_session) (difficulty init_session) (PInt 80)
        (student_store\<lparr>reachable := False\<rparr>) = Inl OperationalError"
    by (simp_all add: scenario_graded init_session_def save_if_logged_in_def
          save_progress_unreachable)
  from scenario_heard p failures_leave_the_cycle [of scenario_runtime ?now
      scenario_client "Some 1" "''wav''" init_session "student_store\<lparr>reachable := False\<rparr>"
      OperationalError ?text ?ev "PInt 80"]
  have 3: "fst (answer_cycle scenario_runtime ?now (Some scenario_client)
            (Some 1) (Some ''wav'') init_session (student_store\<lparr>reachable := False\<rparr>))
       = Raised OperationalError"
    by (simp add: Let_def)
  have c: "transcribe_audio (failing_client ''Score:'') ''wav'' = Inr (Some ?text)"
    "agent_evaluator scenario_runtime (failing_client ''Score:'') ?text
        (current_topic init_session) = Inr ?ev"
    "agent_curriculum scenario_runtime (failing_client ''Score:'') (PInt 80)
        (current_topic init_session) = Inl (ProviderError ''Score:'')"
    by (simp_all add: scenario_defs init_session_def)
  from c saved failures_leave_the_cycle [of scenario_runtime ?now
      "failing_client ''Score:''" "Some 1" "''wav''" init_session student_store
      "ProviderError ''Score:''" ?text ?ev "PInt 80" "graded_store 80"]
  have 4: "fst (answer_cycle scenario_runtime ?now (Some (failing_client ''Score:''))
            (Some 1) (Some ''wav'') init_session student_store) = Raised (ProviderError ''Score:'')"
    by (simp add: Let_def)
  have t: "transcribe_audio (failing_client ''Teach '') ''wav'' = Inr (Some ?text)"
    "agent_evaluator scenario_runtime (failing_client ''Teach '') ?text
        (current_topic init_session) = Inr ?ev"
    "agent_curriculum scenario_runtime (failing_client ''Teach '') (PInt 80)
        (current_topic init_session) = Inr ?plan"
    "agent_tutor scenario_runtime (failing_client ''Teach '') (PStr ''Loops'') (PStr ''Intermediate'')
       = Inl (ProviderError ''Teach '')"
    by (simp_all add: scenario_defs init_session_def)
  from t saved failures_leave_the_cycle [of scenario_runtime ?now
      "failing_client ''Teach ''" "Some 1" "''wav''" init_session student_store
      "ProviderError ''Teach ''" ?text ?ev "PInt 80" "graded_store 80" ?plan
      "PStr ''Loops''" "PStr ''Intermediate''"]
  have 5: "fst (answer_cycle scenario_runtime ?now (Some (failing_client ''Teach ''))
            (Some 1) (Some ''wav'') init_session student_store) = Raised (ProviderError ''Teach '')"
    by (simp add: Let_def)
  have m: "agent_evaluator ?mute scenario_client ?text (current_topic init_session) = Inr ?ev"
    "agent_curriculum ?mute scenario_client (PInt 80) (current_topic init_session) = Inr ?plan"
    "agent_tutor ?mute scenario_client (PStr ''Loops'') (PStr ''Intermediate'')
       = Inr (Some ''What does a for loop repeat?'')"
    "gtts ?mute ''(80/100 - Good) What does a for loop repeat?'' = Inl (ProviderError ''gTTS'')"
    by (simp_all add: scenario_defs init_session_def)
  have msaved: "save_if_logged_in ?mute ?now (Some 1)
        (current_topic init_session) (difficulty init_session) (PInt 80) student_store
       = Inr (graded_store 80)"
    by (simp add: save_if_logged_in_def save_progress_typed init_session_def graded_store_def
          student_store_def int64_def next_rowid_def)
  from scenario_heard m msaved failures_leave_the_cycle [of ?mute ?now
      scenario_client "Some 1" "''wav''" init_session student_store
      "ProviderError ''gTTS''" ?text ?ev "PInt 80" "graded_store 80" ?plan
      "PStr ''Loops''" "PStr ''Intermediate''" "Some ''What does a for loop repeat?''"
      "PStr ''Good''"]
  have 6: "fst (answer_cycle ?mute ?now (Some scenario_client)
            (Some 1) (Some ''wav'') init_session student_store) = Completed"
    by (simp add: Let_def)
  from a b(2) p(2) c(3) t(4) m(4) 1 2 3 4 5 6 show ?thesis
    by simp
qed

text \<open>
  C3 as stated fails: an evaluation that raises ends the scenario in that exception, after
  the learner's turn was appended.
\<close>

theorem failures_counterexample:
  "answer_cycle scenario_runtime ''2024-05-01 09:05:00'' (Some (failing_client ''Topic:''))
       (Some 1) (Some ''wav'') init_session student_store
     = (Raised (ProviderError ''Topic:''),
        \<lparr>history = [\<lparr>role = ''user'', content = ''A variable stores a value''\<rparr>],
         current_topic = PStr ''Python Basics'', difficulty = PStr ''Beginner'',
         mastery_score = PInt 0, last_audio = None\<rparr>,
        student_store)"
  by (simp add: answer_cycle_def Let_def scenario_defs init_session_def)

text \<open>
  C8, as the code has it. The tutor turn of a completed cycle is an opening parenthesis, the
  score, \<^verbatim>\<open>/100 - \<close>, the feedback, a closing parenthesis and a space, and the new
  lesson: score first, feedback second, lesson last, inside that fixed punctuation. It is
  appended after the learner's turn.
\<close>

theorem tutor_turn_format:
  assumes run: "answer_cycle rt now (Some c) user_id (Some audio_bytes) s w = (Completed, s', w')"
    and heard: "transcribe_audio c audio_bytes = Inr (Some user_text)"
    and graded: "agent_evaluator rt c user_text (current_topic s) = Inr eval_result"
    and fb: "subscript eval_result ''feedback'' = Inr feedback"
    and taught: "agent_tutor rt c (current_topic s') (difficulty s') = Inr lesson"
  shows "subscript eval_result ''score'' = Inr (mastery_score s')
         \<and> history s' = history s @
              [\<lparr>role = ''user'', content = user_text\<rparr>,
               \<lparr>role = ''assistant'',
                content = ''('' @ py_str (repr_container rt) (mastery_score s') @ ''/100 - '' @
                          py_str (repr_container rt) feedback @ '') '' @ str_opt lesson\<rparr>]"
  using run heard graded fb taught
  by (elim answer_cycle_completedE) auto

theorem tutor_turn_format_witness:
  "answer_cycle scenario_runtime ''2024-05-01 09:05:00'' (Some scenario_client) (Some 1)
     (Some ''wav'') init_session student_store
   = (Completed,
      \<lparr>history = [\<lparr>role = ''user'', content = ''A variable stores a value''\<rparr>,
                  \<lparr>role = ''assistant'',
                   content = ''(80/100 - Good) What does a for loop repeat?''\<rparr>],
       current_topic = PStr ''Loops'', difficulty = PStr ''Intermediate'',
       mastery_score = PInt 80, last_audio = Some ''mp3''\<rparr>,
      graded_store 80)
   \<and> ''(80/100 - Good) What does a for loop repeat?''
       = ''('' @ py_str (repr_container scenario_runtime) (PInt 80) @ ''/100 - '' @
         py_str (repr_container scenario_runtime) (PStr ''Good'') @ '') '' @
         str_opt (Some ''What does a for loop repeat?'')"
proof -
  let ?ev = "PDict [(''score'', PInt 80), (''feedback'', PStr ''Good'')]"
  let ?s' = "\<lparr>history = [\<lparr>role = ''user'', content = ''A variable stores a value''\<rparr>,
                  \<lparr>role = ''assistant'',
                   content = ''(80/100 - Good) What does a for loop repeat?''\<rparr>],
       current_topic = PStr ''Loops'', difficulty = PStr ''Intermediate'',
       mastery_score = PInt 80, last_audio = Some ''mp3''\<rparr>"
  have graded: "agent_evaluator scenario_runtime scenario_client ''A variable stores a value''
      (current_topic init_session) = Inr ?ev"
    by (simp add: scenario_graded init_session_def)
  have fb: "subscript ?ev ''feedback'' = Inr (PStr ''Good'')"
    by simp
  have taught: "agent_tutor scenario_runtime scenario_client (current_topic ?s') (difficulty ?s')
      = Inr (Some ''What does a for loop repeat?'')"
    by (simp add: scenario_taught)
  from tutor_turn_format [OF scenario_run scenario_heard graded fb taught] scenario_run
  show ?thesis by (simp add: init_session_def)
qed

text \<open>
  C8 as stated fails: in the scenario the turn is \<^verbatim>\<open>(80/100 - Good) ...\<close>; it is not the
  bare concatenation of the three texts and it begins with a parenthesis, not with 80.
\<close>

theorem tutor_turn_counterexample:
  "content (last (history (fst (snd (answer_cycle scenario_runtime ''2024-05-01 09:05:00''
      (Some scenario_client) (Some 1) (Some ''wav'') init_session student_store)))))
     = ''(80/100 - Good) What does a for loop repeat?''
   \<and> ''(80/100 - Good) What does a for loop repeat?''
       \<noteq> ''80'' @ ''Good'' @ ''What does a for loop repeat?''
   \<and> take 2 ''(80/100 - Good) What does a for loop repeat?'' \<noteq> ''80''"
  by (simp add: scenario_run)

subsection \<open>Speech synthesis\<close>

text \<open>The synthesiser is used by \<open>text_to_speech\<close> only.\<close>

lemma integer_affinity_gtts:
  "integer_affinity (rt\<lparr>gtts := g\<rparr>) v = integer_affinity rt v"
  by (cases v) simp_all

lemma save_if_logged_in_gtts:
  "save_if_logged_in (rt\<lparr>gtts := g\<rparr>) now user_id topic level score w =
     save_if_logged_in rt now user_id topic level score w"
  by (simp add: save_if_logged_in_def save_progress_def insert_log_def integer_affinity_gtts
           split: option.splits sum.splits)

lemma loads_gtts:
  "loads (rt\<lparr>gtts := g\<rparr>) res_text = loads rt res_text"
  by (simp add: loads_def split: option.splits)

lemma providers_gtts:
  "agent_evaluator (rt\<lparr>gtts := g\<rparr>) c user_text topic = agent_evaluator rt c user_text topic"
  "agent_curriculum (rt\<lparr>gtts := g\<rparr>) c score topic = agent_curriculum rt c score topic"
  "agent_tutor (rt\<lparr>gtts := g\<rparr>) c topic level = agent_tutor rt c topic level"
  by (simp_all add: agent_evaluator_def agent_curriculum_def agent_tutor_def loads_gtts
               split: sum.splits)

lemma answer_cycle_broken_speech:
  assumes "answer_cycle rt now cl user_id audio s w = (out, s', w')"
  shows "answer_cycle (rt\<lparr>gtts := (\<lambda>t. Inl e)\<rparr>) now cl user_id audio s w =
          (out, if out = Completed then s'\<lparr>last_audio := None\<rparr> else s', w')"
  using assms
  by (auto simp: answer_cycle_def Let_def text_to_speech_def save_if_logged_in_gtts providers_gtts
           split: option.splits sum.splits if_splits)

lemma completed_audio:
  assumes "answer_cycle rt now cl user_id audio s w = (Completed, s', w')"
  shows "last_audio s' = text_to_speech rt (content (last (history s')))"
  using assms by (elim answer_cycle_completedE) simp

text \<open>
  C9. \<open>text_to_speech\<close> returns \<^verbatim>\<open>None\<close> when the synthesis raises and the buffer
  otherwise; it has no third outcome. A synthesiser that raises changes nothing in a cycle
  but the audio: the outcome, the store, the history and the rest of the session are those
  of the cycle with the working synthesiser, and the audio of a completed cycle is
  \<^verbatim>\<open>None\<close>. The audio of a completed cycle is the speech of its last turn.
\<close>

theorem speech_failure_absorbed:
  "(gtts rt txt = Inl e \<longrightarrow> text_to_speech rt txt = None)
   \<and> (gtts rt txt = Inr buf \<longrightarrow> text_to_speech rt txt = Some buf)
   \<and> (answer_cycle rt now cl user_id audio s w = (out, s', w') \<longrightarrow>
        answer_cycle (rt\<lparr>gtts := (\<lambda>t. Inl e)\<rparr>) now cl user_id audio s w =
          (out, if out = Completed then s'\<lparr>last_audio := None\<rparr> else s', w'))
   \<and> (answer_cycle rt now cl user_id audio s w = (Completed, s', w') \<longrightarrow>
        last_audio s' = text_to_speech rt (content (last (history s'))))"
proof (intro conjI impI)
  show "text_to_speech rt txt = None" if "gtts rt txt = Inl e"
    using that by (simp add: text_to_speech_def)
  show "text_to_speech rt txt = Some buf" if "gtts rt txt = Inr buf"
    using that by (simp add: text_to_speech_def)
  show "answer_cycle (rt\<lparr>gtts := (\<lambda>t. Inl e)\<rparr>) now cl user_id audio s w =
          (out, if out = Completed then s'\<lparr>last_audio := None\<rparr> else s', w')"
    if "answer_cycle rt now cl user_id audio s w = (out, s', w')"
    using that by (rule answer_cycle_broken_speech)
  show "last_audio s' = text_to_speech rt (content (last (history s')))"
    if "answer_cycle rt now cl user_id audio s w = (Completed, s', w')"
    using that by (rule completed_audio)
qed

theorem speech_failure_absorbed_witness:
  "gtts (scenario_runtime\<lparr>gtts := (\<lambda>t. Inl (ProviderError ''gTTS''))\<rparr>) ''Hello''
      = Inl (ProviderError ''gTTS'')
   \<and> text_to_speech (scenario_runtime\<lparr>gtts := (\<lambda>t. Inl (ProviderError ''gTTS''))\<rparr>) ''Hello'' = None
   \<and> gtts scenario_runtime ''Hello'' = Inr ''mp3''
   \<and> text_to_speech scenario_runtime ''Hello'' = Some ''mp3''
   \<and> answer_cycle (scenario_runtime\<lparr>gtts := (\<lambda>t. Inl (ProviderError ''gTTS''))\<rparr>)
        ''2024-05-01 09:05:00'' (Some scenario_client) (Some 1) (Some ''wav'') init_session student_store
      = (Completed,
         \<lparr>history = [\<lparr>role = ''user'', content = ''A variable stores a value''\<rparr>,
                     \<lparr>role = ''assistant'',
                      content = ''(80/100 - Good) What does a for loop repeat?''\<rparr>],
          current_topic = PStr ''Loops'', difficulty = PStr ''Intermediate'',
          mastery_score = PInt 80, last_audio = None\<rparr>,
         graded_store 80)"
proof -
  let ?broken = "scenario_runtime\<lparr>gtts := (\<lambda>t. Inl (ProviderError ''gTTS''))\<rparr>"
  have down: "gtts ?broken ''Hello'' = Inl (ProviderError ''gTTS'')"
    by simp
  have up: "gtts scenario_runtime ''Hello'' = Inr ''mp3''"
    by (simp add: scenario_runtime_def)
  from down speech_failure_absorbed [of ?broken "''Hello''" "ProviderError ''gTTS''"]
  have a: "text_to_speech ?broken ''Hello'' = None"
    by blast
  from up scenario_run
    speech_failure_absorbed [of scenario_runtime "''Hello''" "ProviderError ''gTTS''" "''mp3''"
      "''2024-05-01 09:05:00''" "Some scenario_client" "Some 1" "Some ''wav''" init_session
      student_store Completed]
  have b: "text_to_speech scenario_runtime ''Hello'' = Some ''mp3''"
    and c: "answer_cycle ?broken ''2024-05-01 09:05:00'' (Some scenario_client) (Some 1)
        (Some ''wav'') init_session student_store
      = (Completed,
         \<lparr>history = [\<lparr>role = ''user'', content = ''A variable stores a value''\<rparr>,
                     \<lparr>role = ''assistant'',
                      content = ''(80/100 - Good) What does a for loop repeat?''\<rparr>],
          current_topic = PStr ''Loops'', difficulty = PStr ''Intermediate'',
          mastery_score = PInt 80, last_audio = None\<rparr>,
         graded_store 80)"
    by simp_all
  from down a up b c show ?thesis by simp
qed

end
